theory Spec2Isabelle
  imports Complex_Main "HOL-Library.AList"
begin

section \<open>Values: what Python holds and what the JSON file holds\<close>

text \<open>
  The source is \<^verbatim>\<open>simple_database/main.py\<close>. A table is one JSON file
  \<^verbatim>\<open>{"columns": ..., "rows": [...]}\<close> inside the directory of its database.

  Row values are the scalars the type tags of a schema can name: \<^verbatim>\<open>None\<close>,
  \<^verbatim>\<open>bool\<close>, \<^verbatim>\<open>int\<close>, \<^verbatim>\<open>float\<close>, \<^verbatim>\<open>str\<close> and
  \<^verbatim>\<open>datetime.date\<close>. A finite float is modelled by the rational number it denotes
  (it is only stored and compared, never computed with; NaN and the infinities are outside
  the model). A date is its year, month and day.
\<close>

datatype pyval =
    PNone
  | PBool bool
  | PInt int
  | PFloat rat
  | PStr string
  | PDate nat nat nat

text \<open>A JSON scalar, as it stands in the file: JSON has no date.\<close>

datatype jval =
    JNull
  | JBool bool
  | JInt int
  | JFloat rat
  | JStr string

text \<open>\<^verbatim>\<open>type(x).__name__\<close>\<close>

fun type_name :: "pyval \<Rightarrow> string" where
  "type_name PNone = ''NoneType''"
| "type_name (PBool b) = ''bool''"
| "type_name (PInt i) = ''int''"
| "type_name (PFloat r) = ''float''"
| "type_name (PStr s) = ''str''"
| "type_name (PDate y m d) = ''date''"

text \<open>
  \<^verbatim>\<open>date.isoformat()\<close> is \<^verbatim>\<open>'%04d-%02d-%02d' % (year, month, day)\<close>; a
  \<^verbatim>\<open>date\<close> object has a year from 1 to 9999, so four, two and two digits are all the
  digits there are.
\<close>

definition digit :: "nat \<Rightarrow> char" where
  "digit n = ''0123456789'' ! (n mod 10)"

definition isoformat :: "nat \<Rightarrow> nat \<Rightarrow> nat \<Rightarrow> string" where
  "isoformat y m d =
     [digit (y div 1000), digit (y div 100), digit (y div 10), digit y, CHR ''-'',
      digit (m div 10), digit m, CHR ''-'',
      digit (d div 10), digit d]"

text \<open>
  What \<^verbatim>\<open>json.dumps(..., cls=DateTimeEncoder)\<close> writes for a value:
  \<^verbatim>\<open>DateTimeEncoder.default\<close> turns a date into its ISO string, every other value has
  its JSON form.
\<close>

fun json_dumps_value :: "pyval \<Rightarrow> jval" where
  "json_dumps_value PNone = JNull"
| "json_dumps_value (PBool b) = JBool b"
| "json_dumps_value (PInt i) = JInt i"
| "json_dumps_value (PFloat r) = JFloat r"
| "json_dumps_value (PStr s) = JStr s"
| "json_dumps_value (PDate y m d) = JStr (isoformat y m d)"

text \<open>What \<^verbatim>\<open>json.load\<close> returns for a JSON scalar. No decoder hook is installed.\<close>

fun json_load_value :: "jval \<Rightarrow> pyval" where
  "json_load_value JNull = PNone"
| "json_load_value (JBool b) = PBool b"
| "json_load_value (JInt i) = PInt i"
| "json_load_value (JFloat r) = PFloat r"
| "json_load_value (JStr s) = PStr s"

text \<open>
  Python's \<^verbatim>\<open>==\<close> on these values: \<^verbatim>\<open>bool\<close>, \<^verbatim>\<open>int\<close> and
  \<^verbatim>\<open>float\<close> compare by their number (\<^verbatim>\<open>True == 1\<close>, \<^verbatim>\<open>1 == 1.0\<close>),
  everything else only with its own kind.
\<close>

fun py_num :: "pyval \<Rightarrow> rat option" where
  "py_num (PBool b) = Some (if b then 1 else 0)"
| "py_num (PInt i) = Some (of_int i)"
| "py_num (PFloat r) = Some r"
| "py_num v = None"

definition py_eq :: "pyval \<Rightarrow> pyval \<Rightarrow> bool" where
  "py_eq a b =
     (case (py_num a, py_num b) of
        (Some x, Some y) \<Rightarrow> x = y
      | (None, None) \<Rightarrow> a = b
      | _ \<Rightarrow> False)"

section \<open>Schemas, documents and the file system\<close>

text \<open>A column definition \<^verbatim>\<open>{'name': ..., 'type': ...}\<close>.\<close>

record column =
  col_name :: string
  col_type :: string

text \<open>
  A dictionary is an association list in insertion order; \<^verbatim>\<open>d[k] = v\<close> is
  \<^const>\<open>AList.update\<close> (an existing key keeps its place, a new one goes last) and
  \<^verbatim>\<open>d[k]\<close> is \<^const>\<open>map_of\<close>.

  The document of a table file, \<^verbatim>\<open>{'columns': ..., 'rows': [...]}\<close>, over the values
  \<^typ>\<open>'v\<close>: \<^typ>\<open>jval\<close> in the file, \<^typ>\<open>pyval\<close> once loaded.
  \<^verbatim>\<open>columns\<close> may be \<^verbatim>\<open>None\<close> (\<^verbatim>\<open>null\<close>).
\<close>

record 'v table_doc =
  doc_columns :: "column list option"
  doc_rows :: "(string \<times> 'v) list list"

definition json_load :: "jval table_doc \<Rightarrow> pyval table_doc" where
  "json_load doc =
     \<lparr>doc_columns = doc_columns doc,
      doc_rows = map (map (\<lambda>(k, v). (k, json_load_value v))) (doc_rows doc)\<rparr>"

definition json_dumps :: "pyval table_doc \<Rightarrow> jval table_doc" where
  "json_dumps data =
     \<lparr>doc_columns = doc_columns data,
      doc_rows = map (map (\<lambda>(k, v). (k, json_dumps_value v))) (doc_rows data)\<rparr>"

text \<open>
  The directory of a database lists its files in the order \<^verbatim>\<open>os.listdir\<close> reports
  them; the file system below \<^verbatim>\<open>BASE_DB_FILE_PATH\<close> maps the name of a database to
  its directory. Names are single path components, so
  \<^verbatim>\<open>os.path.join(BASE_DB_FILE_PATH, db, file)\<close> is the pair \<open>(db, file)\<close>. A
  file holds the document its JSON text denotes.
\<close>

type_synonym directory = "(string \<times> jval table_doc) list"

type_synonym filesystem = "(string \<times> directory) list"

datatype error =
    ValidationError "string option"
  | FileNotFoundError
  | KeyError string
  | TypeError

text \<open>\<^verbatim>\<open>os.path.exists\<close> on the path of a database directory and of a table file.\<close>

definition dir_exists :: "filesystem \<Rightarrow> string \<Rightarrow> bool" where
  "dir_exists fs d = (map_of fs d \<noteq> None)"

definition path_exists :: "filesystem \<Rightarrow> string \<times> string \<Rightarrow> bool" where
  "path_exists fs p =
     (case map_of fs (fst p) of
        None \<Rightarrow> False
      | Some dir \<Rightarrow> map_of dir (snd p) \<noteq> None)"

text \<open>\<^verbatim>\<open>json.load(open(path))\<close>\<close>

definition read_file :: "filesystem \<Rightarrow> string \<times> string \<Rightarrow> error + jval table_doc" where
  "read_file fs p =
     (case map_of fs (fst p) of
        None \<Rightarrow> Inl FileNotFoundError
      | Some dir \<Rightarrow>
          (case map_of dir (snd p) of
             None \<Rightarrow> Inl FileNotFoundError
           | Some doc \<Rightarrow> Inr doc))"

text \<open>Writing the whole text of a file, creating the file when it is not there.\<close>

definition write_file :: "filesystem \<Rightarrow> string \<times> string \<Rightarrow> jval table_doc \<Rightarrow> error + filesystem" where
  "write_file fs p doc =
     (case map_of fs (fst p) of
        None \<Rightarrow> Inl FileNotFoundError
      | Some dir \<Rightarrow> Inr (AList.update (fst p) (AList.update (snd p) doc dir) fs))"

definition listdir :: "filesystem \<Rightarrow> string \<Rightarrow> error + string list" where
  "listdir fs d =
     (case map_of fs d of
        None \<Rightarrow> Inl FileNotFoundError
      | Some dir \<Rightarrow> Inr (map fst dir))"

section \<open>Row and Table\<close>

text \<open>
  \<^verbatim>\<open>Row(row)\<close> sets one attribute per item of the dictionary; the object is the map
  from attribute names to values.
\<close>

type_synonym Row = "string \<rightharpoonup> pyval"

definition Row :: "(string \<times> pyval) list \<Rightarrow> Row" where
  "Row row = fold (\<lambda>(key, v) self. self(key \<mapsto> v)) row Map.empty"

text \<open>
  A \<^verbatim>\<open>Table\<close> object: \<^verbatim>\<open>self.db.name\<close>, \<^verbatim>\<open>self.name\<close>,
  \<^verbatim>\<open>self.table_filepath\<close> and \<^verbatim>\<open>self.columns\<close>.
\<close>

record Table =
  t_db :: string
  t_name :: string
  table_filepath :: "string \<times> string"
  columns :: "column list option"

text \<open>The truth value of \<^verbatim>\<open>columns\<close>: \<^verbatim>\<open>None\<close> and \<^verbatim>\<open>[]\<close> are false.\<close>

definition truthy :: "column list option \<Rightarrow> bool" where
  "truthy c = (case c of None \<Rightarrow> False | Some cs \<Rightarrow> cs \<noteq> [])"

definition Table_read_columns :: "string \<times> string \<Rightarrow> filesystem \<Rightarrow> error + column list option" where
  "Table_read_columns path fs =
     (case read_file fs path of
        Inl e \<Rightarrow> Inl e
      | Inr doc \<Rightarrow> Inr (doc_columns (json_load doc)))"

text \<open>
  \<^verbatim>\<open>Table.__init__(db, name, columns)\<close>: the file is written only when it does not
  exist; then \<^verbatim>\<open>self.columns = columns or self._read_columns()\<close>. The result is the
  object or the exception, and the file system after the call.
\<close>

definition Table_init ::
  "string \<Rightarrow> string \<Rightarrow> column list option \<Rightarrow> filesystem \<Rightarrow> (error + Table) \<times> filesystem" where
  "Table_init db nm cols fs =
     (let path = (db, nm @ ''.json'');
          created =
            (if \<not> path_exists fs path
             then write_file fs path (json_dumps \<lparr>doc_columns = cols, doc_rows = []\<rparr>)
             else Inr fs)
      in case created of
           Inl e \<Rightarrow> (Inl e, fs)
         | Inr fs' \<Rightarrow>
             (if truthy cols
              then (Inr \<lparr>t_db = db, t_name = nm, table_filepath = path, columns = cols\<rparr>, fs')
              else (case Table_read_columns path fs' of
                      Inl e \<Rightarrow> (Inl e, fs')
                    | Inr c \<Rightarrow>
                        (Inr \<lparr>t_db = db, t_name = nm, table_filepath = path, columns = c\<rparr>, fs'))))"

definition type_message :: "string \<Rightarrow> string \<Rightarrow> string \<Rightarrow> string" where
  "type_message f_name arg_type f_type =
     ''Invalid type of field '' @ [CHR 0x22] @ f_name @ [CHR 0x22] @
     '': Given '' @ [CHR 0x22] @ arg_type @ [CHR 0x22] @
     '', expected '' @ [CHR 0x22] @ f_type @ [CHR 0x22]"

text \<open>
  The loop of \<^verbatim>\<open>insert\<close> over \<^verbatim>\<open>enumerate(self.columns)\<close>, from index
  \<open>i\<close> on. It runs only after the length check, so \<^verbatim>\<open>args[i]\<close> is in range.
\<close>

fun insert_loop :: "nat \<Rightarrow> column list \<Rightarrow> pyval list \<Rightarrow> (string \<times> pyval) list \<Rightarrow> error + (string \<times> pyval) list" where
  "insert_loop i [] args data = Inr data"
| "insert_loop i (col # cols) args data =
     (let f_name = col_name col;
          f_type = col_type col;
          arg_type = type_name (args ! i)
      in if f_type = arg_type
         then insert_loop (Suc i) cols args (AList.update f_name (args ! i) data)
         else Inl (ValidationError (Some (type_message f_name arg_type f_type))))"

text \<open>
  \<^verbatim>\<open>_write_row\<close>: load the whole document, append the row, write the whole document
  back from offset 0. The new text extends the old one, so nothing of the old text is left
  behind it.
\<close>

definition Table_write_row :: "Table \<Rightarrow> (string \<times> pyval) list \<Rightarrow> filesystem \<Rightarrow> (error + unit) \<times> filesystem" where
  "Table_write_row t row fs =
     (case read_file fs (table_filepath t) of
        Inl e \<Rightarrow> (Inl e, fs)
      | Inr doc \<Rightarrow>
          (let data = json_load doc;
               data' = data\<lparr>doc_rows := doc_rows data @ [row]\<rparr>
           in case write_file fs (table_filepath t) (json_dumps data') of
                Inl e \<Rightarrow> (Inl e, fs)
              | Inr fs' \<Rightarrow> (Inr (), fs')))"

text \<open>
  \<^verbatim>\<open>insert(*args)\<close>. \<^verbatim>\<open>len(self.columns)\<close> raises \<^verbatim>\<open>TypeError\<close> when
  the schema is \<^verbatim>\<open>None\<close>.
\<close>

definition Table_insert :: "Table \<Rightarrow> pyval list \<Rightarrow> filesystem \<Rightarrow> (error + unit) \<times> filesystem" where
  "Table_insert t args fs =
     (case columns t of
        None \<Rightarrow> (Inl TypeError, fs)
      | Some cols \<Rightarrow>
          (if length args \<noteq> length cols
           then (Inl (ValidationError (Some ''Invalid amount of field'')), fs)
           else (case insert_loop 0 cols args [] of
                   Inl e \<Rightarrow> (Inl e, fs)
                 | Inr data \<Rightarrow> Table_write_row t data fs)))"

text \<open>
  A generator is modelled by what it yields, in order, and the exception that ends it, if
  one does. The inner loop of \<^verbatim>\<open>query\<close> runs over \<^verbatim>\<open>kwargs.items()\<close> and
  yields the row at every item whose value the row has; \<^verbatim>\<open>row[key]\<close> raises
  \<^verbatim>\<open>KeyError\<close> on a key the row lacks.
\<close>

fun query_items :: "(string \<times> pyval) list \<Rightarrow> (string \<times> pyval) list \<Rightarrow> Row list \<times> error option" where
  "query_items [] row = ([], None)"
| "query_items ((key, v) # kwargs) row =
     (case map_of row key of
        None \<Rightarrow> ([], Some (KeyError key))
      | Some x \<Rightarrow>
          (if py_eq x v
           then (case query_items kwargs row of (ys, e) \<Rightarrow> (Row row # ys, e))
           else query_items kwargs row))"

fun query_rows :: "(string \<times> pyval) list \<Rightarrow> (string \<times> pyval) list list \<Rightarrow> Row list \<times> error option" where
  "query_rows kwargs [] = ([], None)"
| "query_rows kwargs (row # rows) =
     (case query_items kwargs row of
        (ys, Some e) \<Rightarrow> (ys, Some e)
      | (ys, None) \<Rightarrow> (case query_rows kwargs rows of (zs, e) \<Rightarrow> (ys @ zs, e)))"

definition Table_query :: "Table \<Rightarrow> (string \<times> pyval) list \<Rightarrow> filesystem \<Rightarrow> Row list \<times> error option" where
  "Table_query t kwargs fs =
     (case read_file fs (table_filepath t) of
        Inl e \<Rightarrow> ([], Some e)
      | Inr doc \<Rightarrow> query_rows kwargs (doc_rows (json_load doc)))"

definition Table_all :: "Table \<Rightarrow> filesystem \<Rightarrow> Row list \<times> error option" where
  "Table_all t fs =
     (case read_file fs (table_filepath t) of
        Inl e \<Rightarrow> ([], Some e)
      | Inr doc \<Rightarrow> (map Row (doc_rows (json_load doc)), None))"

definition Table_count :: "Table \<Rightarrow> filesystem \<Rightarrow> error + nat" where
  "Table_count t fs =
     (case read_file fs (table_filepath t) of
        Inl e \<Rightarrow> Inl e
      | Inr doc \<Rightarrow> Inr (length (doc_rows (json_load doc))))"

definition Table_describe :: "Table \<Rightarrow> column list option" where
  "Table_describe t = columns t"

section \<open>DataBase\<close>

text \<open>\<^verbatim>\<open>sub in s\<close> and \<^verbatim>\<open>s.replace(old, new)\<close> on strings.\<close>

fun str_contains :: "string \<Rightarrow> string \<Rightarrow> bool" where
  "str_contains sub [] = (sub = [])"
| "str_contains sub (c # cs) = (take (length sub) (c # cs) = sub \<or> str_contains sub cs)"

function str_replace :: "string \<Rightarrow> string \<Rightarrow> string \<Rightarrow> string" where
  "str_replace old new s =
     (if old = [] then concat (map (\<lambda>c. new @ [c]) s) @ new
      else if s = [] then []
      else if take (length old) s = old
           then new @ str_replace old new (drop (length old) s)
           else hd s # str_replace old new (tl s))"
  by pat_completeness auto
termination
  by (relation "measure (\<lambda>(old, new, s). length s)") auto

declare str_replace.simps [simp del]

text \<open>
  A \<^verbatim>\<open>DataBase\<close> object: \<^verbatim>\<open>self.name\<close> (which is also its directory below the
  base path), \<^verbatim>\<open>self.tables\<close>, and the table objects that \<^verbatim>\<open>setattr\<close> hangs
  on it, by name. The table objects are kept apart from the two fields: a table whose name
  is that of a field or method of the object (\<^verbatim>\<open>name\<close>, \<^verbatim>\<open>tables\<close>, ...)
  would replace it, and such names are outside the model.
\<close>

record DataBase =
  db_name :: string
  tables :: "string list"
  attrs :: "(string \<times> Table) list"

definition exists_message :: "string \<Rightarrow> string" where
  "exists_message nm =
     ''Database with name '' @ [CHR 0x22] @ nm @ [CHR 0x22] @ '' already exists.''"

text \<open>\<^verbatim>\<open>DataBase.create(name)\<close>; \<^verbatim>\<open>os.makedirs\<close> makes an empty directory.\<close>

definition DataBase_create :: "string \<Rightarrow> filesystem \<Rightarrow> (error + unit) \<times> filesystem" where
  "DataBase_create nm fs =
     (if dir_exists fs nm
      then (Inl (ValidationError (Some (exists_message nm))), fs)
      else (Inr (), AList.update nm [] fs))"

text \<open>
  The second loop of \<^verbatim>\<open>_read_tables\<close>:
  \<^verbatim>\<open>setattr(self, table, Table(self, table))\<close> for every name found.
\<close>

fun read_tables_loop ::
  "string \<Rightarrow> string list \<Rightarrow> (string \<times> Table) list \<Rightarrow> filesystem \<Rightarrow> (error + (string \<times> Table) list) \<times> filesystem" where
  "read_tables_loop db [] objs fs = (Inr objs, fs)"
| "read_tables_loop db (table # rest) objs fs =
     (case Table_init db table None fs of
        (Inl e, fs') \<Rightarrow> (Inl e, fs')
      | (Inr t, fs') \<Rightarrow> read_tables_loop db rest (AList.update table t objs) fs')"

definition DataBase_read_tables ::
  "string \<Rightarrow> filesystem \<Rightarrow> (error + string list \<times> (string \<times> Table) list) \<times> filesystem" where
  "DataBase_read_tables db fs =
     (case listdir fs db of
        Inl e \<Rightarrow> (Inl e, fs)
      | Inr files \<Rightarrow>
          (let found = map (str_replace ''.json'' []) (filter (str_contains ''.json'') files)
           in case read_tables_loop db found [] fs of
                (Inl e, fs') \<Rightarrow> (Inl e, fs')
              | (Inr objs, fs') \<Rightarrow> (Inr (found, objs), fs')))"

definition DataBase_init :: "string \<Rightarrow> filesystem \<Rightarrow> (error + DataBase) \<times> filesystem" where
  "DataBase_init nm fs =
     (case DataBase_read_tables nm fs of
        (Inl e, fs') \<Rightarrow> (Inl e, fs')
      | (Inr (found, objs), fs') \<Rightarrow> (Inr \<lparr>db_name = nm, tables = found, attrs = objs\<rparr>, fs'))"

text \<open>
  \<^verbatim>\<open>create_table(table_name, columns)\<close>: the result, the object after the call and the
  file system after the call.
\<close>

definition DataBase_create_table ::
  "DataBase \<Rightarrow> string \<Rightarrow> column list option \<Rightarrow> filesystem \<Rightarrow> (error + unit) \<times> DataBase \<times> filesystem" where
  "DataBase_create_table self nm cols fs =
     (if nm \<in> set (tables self)
      then (Inl (ValidationError None), self, fs)
      else (case Table_init (db_name self) nm cols fs of
              (Inl e, fs') \<Rightarrow> (Inl e, self, fs')
            | (Inr t, fs') \<Rightarrow>
                (Inr (),
                 self\<lparr>tables := tables self @ [nm], attrs := AList.update nm t (attrs self)\<rparr>,
                 fs')))"


definition connect_database :: "string \<Rightarrow> filesystem \<Rightarrow> (error + DataBase) \<times> filesystem" where
  "connect_database nm fs = DataBase_init nm fs"

definition create_database :: "string \<Rightarrow> filesystem \<Rightarrow> (error + DataBase) \<times> filesystem" where
  "create_database nm fs =
     (case DataBase_create nm fs of
        (Inl e, fs') \<Rightarrow> (Inl e, fs')
      | (Inr u, fs') \<Rightarrow> connect_database nm fs')"

section \<open>An example state\<close>

text \<open>
  The database \<^verbatim>\<open>shop\<close> with the table \<^verbatim>\<open>users\<close>, its schema
  \<^verbatim>\<open>[{'name': 'name', 'type': 'str'}, {'name': 'age', 'type': 'int'}]\<close> and the one
  row \<^verbatim>\<open>('Ana', 30)\<close>.
\<close>

definition users_columns :: "column list" where
  "users_columns =
     [\<lparr>col_name = ''name'', col_type = ''str''\<rparr>, \<lparr>col_name = ''age'', col_type = ''int''\<rparr>]"

definition users_table :: Table where
  "users_table =
     \<lparr>t_db = ''shop'', t_name = ''users'', table_filepath = (''shop'', ''users.json''),
      columns = Some users_columns\<rparr>"

definition shop_fs :: filesystem where
  "shop_fs =
     [(''shop'',
       [(''users.json'',
         \<lparr>doc_columns = Some users_columns,
          doc_rows = [[(''name'', JStr ''Ana''), (''age'', JInt 30)]]\<rparr>)])]"


text \<open>
  A table \<^verbatim>\<open>events\<close> in another state of \<^verbatim>\<open>shop\<close>, with the one column
  \<^verbatim>\<open>{'name': 'day', 'type': 'date'}\<close> and no row yet.
\<close>

definition events_columns :: "column list" where
  "events_columns = [\<lparr>col_name = ''day'', col_type = ''date''\<rparr>]"



text \<open>
  The directory of \<^verbatim>\<open>shop\<close> after \<^verbatim>\<open>create_table('a.json', ...)\<close> on the empty
  database: the one file \<^verbatim>\<open>a.json.json\<close>.
\<close>

definition dotted_fs :: filesystem where
  "dotted_fs =
     [(''shop'', [(''a.json.json'', \<lparr>doc_columns = Some users_columns, doc_rows = []\<rparr>)])]"

section \<open>Insert: validation comes before any write\<close>

text \<open>
  C5. On a table with a schema, \<^verbatim>\<open>insert\<close> with a number of values other than the
  number of columns fails with \<^verbatim>\<open>ValidationError('Invalid amount of field')\<close>; the
  file system is the one before the call, so \<^verbatim>\<open>count()\<close> is unchanged.
\<close>

theorem insert_wrong_count:
  assumes "columns t = Some cols" and "length args \<noteq> length cols"
  shows "Table_insert t args fs = (Inl (ValidationError (Some ''Invalid amount of field'')), fs) \<and>
         Table_count t (snd (Table_insert t args fs)) = Table_count t fs"
  using assms by (simp add: Table_insert_def)

text \<open>One value for the two columns of \<^verbatim>\<open>users\<close>: the count stays 1.\<close>

theorem insert_wrong_count_witness:
  "columns users_table = Some users_columns \<and>
   length [PStr ''Ana''] \<noteq> length users_columns \<and>
   Table_insert users_table [PStr ''Ana''] shop_fs =
     (Inl (ValidationError (Some ''Invalid amount of field'')), shop_fs) \<and>
   Table_count users_table (snd (Table_insert users_table [PStr ''Ana''] shop_fs)) = Inr 1"
proof -
  have c: "columns users_table = Some users_columns"
    by (simp add: users_table_def)
  have l: "length [PStr ''Ana''] \<noteq> length users_columns"
    by (simp add: users_columns_def)
  have n: "Table_count users_table shop_fs = Inr 1"
    by (simp add: Table_count_def read_file_def users_table_def shop_fs_def json_load_def)
  from insert_wrong_count [OF c l, of shop_fs] c l n show ?thesis
    by simp
qed

text \<open>
  The loop stops at the first column whose type tag is not the type name of its value,
  whatever it has gathered so far.
\<close>

lemma insert_loop_mismatch:
  assumes "k < length cols" and "type_name (args ! (i + k)) \<noteq> col_type (cols ! k)"
  shows "\<exists>j\<le>k. (\<forall>l<j. type_name (args ! (i + l)) = col_type (cols ! l)) \<and>
           type_name (args ! (i + j)) \<noteq> col_type (cols ! j) \<and>
           insert_loop i cols args data =
             Inl (ValidationError (Some (type_message (col_name (cols ! j))
                    (type_name (args ! (i + j))) (col_type (cols ! j)))))"
  using assms
proof (induction cols arbitrary: i k data)
  case Nil
  then show ?case by simp
next
  case (Cons col cols)
  show ?case
  proof (cases "col_type col = type_name (args ! i)")
    case False
    then have "insert_loop i (col # cols) args data =
        Inl (ValidationError (Some (type_message (col_name col) (type_name (args ! i)) (col_type col))))"
      by (simp add: Let_def)
    with False show ?thesis
      by (intro exI [of _ 0]) auto
  next
    case True
    with Cons.prems obtain k' where k: "k = Suc k'"
      by (cases k) auto
    let ?data = "AList.update (col_name col) (args ! i) data"
    from Cons.prems k have "k' < length cols" and "type_name (args ! (Suc i + k')) \<noteq> col_type (cols ! k')"
      by auto
    from Cons.IH [OF this, of ?data] obtain j where j: "j \<le> k'"
      "\<forall>l<j. type_name (args ! (Suc i + l)) = col_type (cols ! l)"
      "type_name (args ! (Suc i + j)) \<noteq> col_type (cols ! j)"
      "insert_loop (Suc i) cols args ?data =
         Inl (ValidationError (Some (type_message (col_name (cols ! j))
                (type_name (args ! (Suc i + j))) (col_type (cols ! j)))))"
      by blast
    have all: "\<forall>l<Suc j. type_name (args ! (i + l)) = col_type ((col # cols) ! l)"
    proof (intro allI impI)
      fix l assume "l < Suc j"
      then show "type_name (args ! (i + l)) = col_type ((col # cols) ! l)"
        using True j(2) by (cases l) auto
    qed
    from True j(4) have "insert_loop i (col # cols) args data =
         Inl (ValidationError (Some (type_message (col_name ((col # cols) ! Suc j))
                (type_name (args ! (i + Suc j))) (col_type ((col # cols) ! Suc j)))))"
      by (simp add: Let_def)
    with all j(1,3) k show ?thesis
      by (intro exI [of _ "Suc j"]) auto
  qed
qed

text \<open>
  C6. On a table with a schema, \<^verbatim>\<open>insert\<close> with the right number of values of which
  the one at some position \<open>i\<close> has a type name other than the type tag of column \<open>i\<close>
  fails with a \<^verbatim>\<open>ValidationError\<close> whose message names a mismatched field, its given
  type and its expected type: the field of the first mismatched position \<open>j\<close> (which is
  \<open>i\<close> when only one value is wrong). The file system is the one before the call: no
  row is written.
\<close>

theorem insert_type_mismatch:
  assumes \<open>columns t = Some cols\<close> and \<open>length args = length cols\<close>
    and \<open>i < length cols\<close> and \<open>type_name (args ! i) \<noteq> col_type (cols ! i)\<close>
  shows \<open>\<exists>j\<le>i. (\<forall>l<j. type_name (args ! l) = col_type (cols ! l)) \<and>
           type_name (args ! j) \<noteq> col_type (cols ! j) \<and>
           Table_insert t args fs =
             (Inl (ValidationError (Some
                (''Invalid type of field "'' @ col_name (cols ! j) @
                 ''": Given "'' @ type_name (args ! j) @
                 ''", expected "'' @ col_type (cols ! j) @ ''"''))), fs)\<close>
proof -
  from assms(3,4) have "type_name (args ! (0 + i)) \<noteq> col_type (cols ! i)"
    by simp
  from insert_loop_mismatch [OF assms(3) this, of "[]"] obtain j where j: "j \<le> i"
    "\<forall>l<j. type_name (args ! l) = col_type (cols ! l)"
    "type_name (args ! j) \<noteq> col_type (cols ! j)"
    "insert_loop 0 cols args [] =
       Inl (ValidationError (Some (type_message (col_name (cols ! j))
              (type_name (args ! j)) (col_type (cols ! j)))))"
    by auto
  from assms(1,2) j(4) have "Table_insert t args fs =
      (Inl (ValidationError (Some (type_message (col_name (cols ! j))
              (type_name (args ! j)) (col_type (cols ! j))))), fs)"
    by (simp add: Table_insert_def)
  with j(1,2,3) show ?thesis
    by (auto simp: type_message_def)
qed

text \<open>
  \<^verbatim>\<open>insert('Bo', 2.5)\<close> into \<^verbatim>\<open>users\<close>: a float where the schema says
  \<^verbatim>\<open>int\<close>.
\<close>

theorem insert_type_mismatch_witness:
  \<open>columns users_table = Some users_columns \<and>
   length [PStr ''Bo'', PFloat (5 / 2)] = length users_columns \<and>
   (1::nat) < length users_columns \<and>
   type_name ([PStr ''Bo'', PFloat (5 / 2)] ! 1) \<noteq> col_type (users_columns ! 1) \<and>
   Table_insert users_table [PStr ''Bo'', PFloat (5 / 2)] shop_fs =
     (Inl (ValidationError (Some ''Invalid type of field "age": Given "float", expected "int"'')),
      shop_fs)\<close>
proof -
  let ?args = "[PStr ''Bo'', PFloat (5 / 2)]"
  have c: "columns users_table = Some users_columns"
    by (simp add: users_table_def)
  have n: "length ?args = length users_columns"
    by (simp add: users_columns_def)
  have i: "(1::nat) < length users_columns"
    by (simp add: users_columns_def)
  have m: "type_name (?args ! 1) \<noteq> col_type (users_columns ! 1)"
    by (simp add: users_columns_def)
  from insert_type_mismatch [OF c n i m, of shop_fs] obtain j where j: "j \<le> 1"
    "type_name (?args ! j) \<noteq> col_type (users_columns ! j)"
    "Table_insert users_table ?args shop_fs =
       (Inl (ValidationError (Some
          (''Invalid type of field '' @ [CHR 0x22] @ col_name (users_columns ! j) @
           [CHR 0x22] @ '': Given '' @ [CHR 0x22] @ type_name (?args ! j) @
           [CHR 0x22] @ '', expected '' @ [CHR 0x22] @ col_type (users_columns ! j) @
           [CHR 0x22]))), shop_fs)"
    by auto
  from j(1,2) have "j = 1"
    by (cases "j = 0") (auto simp: users_columns_def)
  with j(3) have \<open>Table_insert users_table ?args shop_fs =
     (Inl (ValidationError (Some ''Invalid type of field "age": Given "float", expected "int"'')),
      shop_fs)\<close>
    by (simp add: users_columns_def)
  with c n i m show ?thesis
    by simp
qed

section \<open>Insert, then read back\<close>












section \<open>The catalog and the life cycle of a database\<close>



text \<open>
  C8. When the directory of the name exists, \<^verbatim>\<open>DataBase.create\<close> fails with
  \<^verbatim>\<open>ValidationError('Database with name "N" already exists.')\<close> and the file system is
  the one before the call. When it does not exist, the call succeeds, the directory exists
  afterwards and is empty, and every other directory is as it was.
\<close>

theorem create_exists_or_makes_dir:
  \<open>(dir_exists fs nm \<longrightarrow>
      DataBase_create nm fs =
        (Inl (ValidationError (Some (''Database with name "'' @ nm @ ''" already exists.''))), fs)) \<and>
   (\<not> dir_exists fs nm \<longrightarrow>
      fst (DataBase_create nm fs) = Inr () \<and>
      listdir (snd (DataBase_create nm fs)) nm = Inr [] \<and>
      (\<forall>other. other \<noteq> nm \<longrightarrow>
         map_of (snd (DataBase_create nm fs)) other = map_of fs other))\<close>
  by (simp add: DataBase_create_def exists_message_def listdir_def update_conv')

text \<open>\<^verbatim>\<open>shop\<close> exists, \<^verbatim>\<open>blog\<close> does not.\<close>

theorem create_exists_or_makes_dir_witness:
  \<open>dir_exists shop_fs ''shop'' \<and>
   DataBase_create ''shop'' shop_fs =
     (Inl (ValidationError (Some ''Database with name "shop" already exists.'')), shop_fs) \<and>
   \<not> dir_exists shop_fs ''blog'' \<and>
   fst (DataBase_create ''blog'' shop_fs) = Inr () \<and>
   listdir (snd (DataBase_create ''blog'' shop_fs)) ''blog'' = Inr [] \<and>
   map_of (snd (DataBase_create ''blog'' shop_fs)) ''shop'' = map_of shop_fs ''shop''\<close>
proof -
  have a: "dir_exists shop_fs ''shop''"
    by (simp add: dir_exists_def shop_fs_def)
  have b: "\<not> dir_exists shop_fs ''blog''"
    by (simp add: dir_exists_def shop_fs_def)
  from create_exists_or_makes_dir [of shop_fs "''shop''"]
    create_exists_or_makes_dir [of shop_fs "''blog''"] a b
  show ?thesis
    by simp
qed

section \<open>Opening a table\<close>

text \<open>
  C10. In an existing database directory that has no file for the table, constructing the
  \<^verbatim>\<open>Table\<close> with \<^verbatim>\<open>columns=None\<close> raises nothing: it returns the object, whose
  schema is \<^verbatim>\<open>None\<close>, and the file then holds
  \<^verbatim>\<open>{"columns": null, "rows": []}\<close>. Nothing checks that a new table has a schema.
\<close>

theorem table_init_without_schema:
  assumes "dir_exists fs db" and "\<not> path_exists fs (db, nm @ ''.json'')"
  shows "fst (Table_init db nm None fs) =
           Inr \<lparr>t_db = db, t_name = nm, table_filepath = (db, nm @ ''.json''), columns = None\<rparr> \<and>
         read_file (snd (Table_init db nm None fs)) (db, nm @ ''.json'') =
           Inr \<lparr>doc_columns = None, doc_rows = []\<rparr>"
proof -
  from assms(1) obtain dir where dir: "map_of fs db = Some dir"
    by (auto simp: dir_exists_def)
  let ?doc = "\<lparr>doc_columns = None, doc_rows = []\<rparr> :: jval table_doc"
  let ?fs' = "AList.update db (AList.update (nm @ ''.json'') ?doc dir) fs"
  have w: "write_file fs (db, nm @ ''.json'') (json_dumps \<lparr>doc_columns = None, doc_rows = []\<rparr>) = Inr ?fs'"
    by (simp add: write_file_def dir json_dumps_def)
  have r: "read_file ?fs' (db, nm @ ''.json'') = Inr ?doc"
    by (simp add: read_file_def update_conv')
  from assms(2) w r show ?thesis
    by (simp add: Table_init_def Let_def truthy_def Table_read_columns_def json_load_def)
qed

text \<open>\<^verbatim>\<open>Table(db, 'orders')\<close> in \<^verbatim>\<open>shop\<close>, which has no \<^verbatim>\<open>orders.json\<close>.\<close>

theorem table_init_without_schema_witness:
  "dir_exists shop_fs ''shop'' \<and>
   \<not> path_exists shop_fs (''shop'', ''orders'' @ ''.json'') \<and>
   fst (Table_init ''shop'' ''orders'' None shop_fs) =
     Inr \<lparr>t_db = ''shop'', t_name = ''orders'', table_filepath = (''shop'', ''orders.json''),
          columns = None\<rparr> \<and>
   read_file (snd (Table_init ''shop'' ''orders'' None shop_fs)) (''shop'', ''orders.json'') =
     Inr \<lparr>doc_columns = None, doc_rows = []\<rparr>"
proof -
  have a: "dir_exists shop_fs ''shop''"
    by (simp add: dir_exists_def shop_fs_def)
  have b: "\<not> path_exists shop_fs (''shop'', ''orders'' @ ''.json'')"
    by (simp add: path_exists_def shop_fs_def)
  from table_init_without_schema [OF a b] a b show ?thesis
    by simp
qed

text \<open>
  When the file of the table exists, constructing the \<^verbatim>\<open>Table\<close> succeeds and
  leaves the file system as it is. \<^verbatim>\<open>self.columns = columns or self._read_columns()\<close>
  reads the schema from the file only when \<^verbatim>\<open>columns\<close> is \<^verbatim>\<open>None\<close> or
  \<^verbatim>\<open>[]\<close>; a non-empty \<^verbatim>\<open>columns\<close> is kept and the file is not consulted.
\<close>

lemma Table_init_existing_file:
  assumes "read_file fs (db, nm @ ''.json'') = Inr doc"
  shows "\<exists>t. Table_init db nm cols fs = (Inr t, fs) \<and>
             Table_describe t = (if cols = None \<or> cols = Some [] then doc_columns doc else cols)"
proof -
  from assms have ex: "path_exists fs (db, nm @ ''.json'')"
    by (auto simp: read_file_def path_exists_def split: option.splits)
  from assms have rc: "Table_read_columns (db, nm @ ''.json'') fs = Inr (doc_columns doc)"
    by (simp add: Table_read_columns_def json_load_def)
  show ?thesis
  proof (cases "truthy cols")
    case True
    with ex show ?thesis
      by (auto simp: Table_init_def Let_def Table_describe_def truthy_def split: option.splits)
  next
    case False
    with ex rc show ?thesis
      by (auto simp: Table_init_def Let_def Table_describe_def truthy_def split: option.splits)
  qed
qed

text \<open>
  C3 at \<^verbatim>\<open>users\<close>, whose file holds the schema \<^verbatim>\<open>name\<close>, \<^verbatim>\<open>age\<close>.
  \<^verbatim>\<open>Table(db, 'users', columns)\<close> with the schema of \<^verbatim>\<open>events\<close> leaves the
  file as it is and returns an object whose \<^verbatim>\<open>describe()\<close> is the schema passed in,
  not the one in the file (the comment on \<^verbatim>\<open>describe\<close> says it returns the
  columns read from the JSON file). \<^verbatim>\<open>insert(date(2020, 1, 15))\<close> on that object is
  then accepted, and the file, still with the columns \<^verbatim>\<open>name\<close> and \<^verbatim>\<open>age\<close>,
  gets a row whose only key is \<^verbatim>\<open>day\<close>.
\<close>

theorem table_init_passed_schema_evaluated:
  "Table_read_columns (''shop'', ''users.json'') shop_fs = Inr (Some users_columns) \<and>
   Table_init ''shop'' ''users'' (Some events_columns) shop_fs =
     (Inr \<lparr>t_db = ''shop'', t_name = ''users'', table_filepath = (''shop'', ''users.json''),
           columns = Some events_columns\<rparr>, shop_fs) \<and>
   Table_describe \<lparr>t_db = ''shop'', t_name = ''users'', table_filepath = (''shop'', ''users.json''),
          columns = Some events_columns\<rparr> = Some events_columns \<and>
   events_columns \<noteq> users_columns \<and>
   Table_insert \<lparr>t_db = ''shop'', t_name = ''users'', table_filepath = (''shop'', ''users.json''),
          columns = Some events_columns\<rparr> [PDate 2020 1 15] shop_fs =
     (Inr (),
      [(''shop'',
        [(''users.json'',
          \<lparr>doc_columns = Some users_columns,
           doc_rows = [[(''name'', JStr ''Ana''), (''age'', JInt 30)],
                       [(''day'', JStr ''2020-01-15'')]]\<rparr>)])])"
  by (simp add: users_columns_def shop_fs_def events_columns_def Table_read_columns_def
      read_file_def write_file_def Table_init_def path_exists_def truthy_def Table_describe_def
      Table_insert_def Table_write_row_def json_load_def json_dumps_def isoformat_def digit_def
      Let_def)

section \<open>Query\<close>

text \<open>
  The \<^verbatim>\<open>yield\<close> stands inside the loop over the items of \<^verbatim>\<open>kwargs\<close>: a row is
  yielded once for every item it satisfies. With no item nothing is yielded, whatever the
  table holds; with one item, on rows that all have the key, the rows yielded are those
  that satisfy it, once each and in order.
\<close>

lemma query_rows_no_predicate: "query_rows [] rows = ([], None)"
  by (induction rows) simp_all

lemma query_no_predicate: "fst (Table_query t [] fs) = []"
  by (simp add: Table_query_def query_rows_no_predicate split: sum.splits)

lemma query_rows_one_predicate:
  assumes "\<forall>row\<in>set rows. map_of row key \<noteq> None"
  shows "query_rows [(key, v)] rows =
           (map Row (filter (\<lambda>row. py_eq (the (map_of row key)) v) rows), None)"
  using assms by (induction rows) auto

text \<open>
  C1 at \<^verbatim>\<open>users\<close>, which holds the one row \<^verbatim>\<open>('Ana', 30)\<close>.
  \<^verbatim>\<open>query(name='Ana', age=31)\<close> yields the row, which satisfies only one of the two
  items; \<^verbatim>\<open>query(name='Ana', age=30)\<close> yields it twice.
\<close>

theorem query_multi_key_evaluated:
  "Table_query users_table [(''name'', PStr ''Ana''), (''age'', PInt 31)] shop_fs =
     ([Row [(''name'', PStr ''Ana''), (''age'', PInt 30)]], None) \<and>
   Table_query users_table [(''name'', PStr ''Ana''), (''age'', PInt 30)] shop_fs =
     ([Row [(''name'', PStr ''Ana''), (''age'', PInt 30)],
       Row [(''name'', PStr ''Ana''), (''age'', PInt 30)]], None)"
  by (simp add: users_columns_def users_table_def shop_fs_def Table_query_def read_file_def json_load_def py_eq_def)

text \<open>
  C2 at \<^verbatim>\<open>users\<close>: \<^verbatim>\<open>query()\<close> with no item yields nothing, \<^verbatim>\<open>all()\<close>
  yields the one row.
\<close>

theorem query_no_predicate_evaluated:
  "Table_query users_table [] shop_fs = ([], None) \<and>
   Table_all users_table shop_fs = ([Row [(''name'', PStr ''Ana''), (''age'', PInt 30)]], None)"
  by (simp add: users_columns_def users_table_def shop_fs_def Table_query_def Table_all_def read_file_def json_load_def)

section \<open>Connecting again\<close>

text \<open>
  \<^verbatim>\<open>_read_tables\<close> takes every file name that has \<^verbatim>\<open>.json\<close> somewhere in it
  and removes every \<^verbatim>\<open>.json\<close> from it. For a name with no \<^verbatim>\<open>.json\<close> in it,
  that gives the name back from the name of its file.
\<close>

lemma str_contains_suffix: "str_contains sub (nm @ sub)"
proof (induction nm)
  case Nil
  show ?case by (cases sub) simp_all
next
  case (Cons c nm)
  then show ?case by simp
qed

lemma json_prefix_of_append:
  assumes "take (length ''.json'') ((c # cs) @ ''.json'') = ''.json''"
  shows "take (length ''.json'') (c # cs) = ''.json''"
proof -
  consider "cs = []" | a where "cs = [a]" | a b where "cs = [a, b]" | a b d where "cs = [a, b, d]"
    | a b d e rest where "cs = a # b # d # e # rest"
    by (metis list.exhaust)
  then show ?thesis
    using assms by cases auto
qed

lemma str_replace_step:
  assumes "old \<noteq> []" and "s \<noteq> []" and "take (length old) s \<noteq> old"
  shows "str_replace old new s = hd s # str_replace old new (tl s)"
  using assms by (subst str_replace.simps) simp

lemma str_replace_json_suffix:
  "\<not> str_contains ''.json'' nm \<Longrightarrow> str_replace ''.json'' [] (nm @ ''.json'') = nm"
proof (induction nm)
  case Nil
  show ?case by (simp add: str_replace.simps)
next
  case (Cons c cs)
  from Cons.prems have here: "take (length ''.json'') (c # cs) \<noteq> ''.json''" and rest: "\<not> str_contains ''.json'' cs"
    by simp_all
  from here have "take (length ''.json'') ((c # cs) @ ''.json'') \<noteq> ''.json''"
    using json_prefix_of_append by blast
  then have "str_replace ''.json'' [] ((c # cs) @ ''.json'') =
      hd ((c # cs) @ ''.json'') # str_replace ''.json'' [] (tl ((c # cs) @ ''.json''))"
    by (rule str_replace_step [rotated 2]) simp_all
  then have "str_replace ''.json'' [] ((c # cs) @ ''.json'') = c # str_replace ''.json'' [] (cs @ ''.json'')"
    by simp
  with Cons.IH [OF rest] show ?case by simp
qed

lemma found_names:
  assumes "\<forall>nm\<in>set names. \<not> str_contains ''.json'' nm"
  shows "map (str_replace ''.json'' []) (filter (str_contains ''.json'') (map (\<lambda>nm. nm @ ''.json'') names)) = names"
  using assms by (induction names) (simp_all add: str_contains_suffix str_replace_json_suffix)

text \<open>
  So when the directory holds exactly the files of tables whose names have no
  \<^verbatim>\<open>.json\<close> in them, connecting finds these names in the order of the directory,
  changes no file, and gives every table the schema its file holds.
\<close>

lemma Table_init_existing_no_schema:
  assumes "read_file fs (db, nm @ ''.json'') = Inr doc"
  shows "Table_init db nm None fs =
           (Inr \<lparr>t_db = db, t_name = nm, table_filepath = (db, nm @ ''.json''),
                 columns = doc_columns doc\<rparr>, fs)"
proof -
  from assms have "path_exists fs (db, nm @ ''.json'')"
    by (auto simp: read_file_def path_exists_def split: option.splits)
  with assms show ?thesis
    by (simp add: Table_init_def Let_def truthy_def Table_read_columns_def json_load_def)
qed

lemma read_tables_loop_existing:
  assumes "\<forall>nm\<in>set names. \<exists>doc. read_file fs (db, nm @ ''.json'') = Inr doc"
  shows "\<exists>objs. read_tables_loop db names objs0 fs = (Inr objs, fs) \<and>
           (\<forall>nm\<in>set names. \<exists>t doc. map_of objs nm = Some t \<and>
               read_file fs (db, nm @ ''.json'') = Inr doc \<and> columns t = doc_columns doc) \<and>
           (\<forall>x. x \<notin> set names \<longrightarrow> map_of objs x = map_of objs0 x)"
  using assms
proof (induction names arbitrary: objs0)
  case Nil
  then show ?case by simp
next
  case (Cons nm names)
  from Cons.prems obtain doc where doc: "read_file fs (db, nm @ ''.json'') = Inr doc"
    by auto
  let ?t = "\<lparr>t_db = db, t_name = nm, table_filepath = (db, nm @ ''.json''), columns = doc_columns doc\<rparr>"
  from Cons.prems have "\<forall>nm\<in>set names. \<exists>doc. read_file fs (db, nm @ ''.json'') = Inr doc"
    by simp
  from Cons.IH [OF this, of "AList.update nm ?t objs0"] obtain objs where objs:
    "read_tables_loop db names (AList.update nm ?t objs0) fs = (Inr objs, fs)"
    "\<forall>nm\<in>set names. \<exists>t doc. map_of objs nm = Some t \<and>
        read_file fs (db, nm @ ''.json'') = Inr doc \<and> columns t = doc_columns doc"
    "\<forall>x. x \<notin> set names \<longrightarrow> map_of objs x = map_of (AList.update nm ?t objs0) x"
    by blast
  from doc objs(1) have run: "read_tables_loop db (nm # names) objs0 fs = (Inr objs, fs)"
    by (simp add: Table_init_existing_no_schema)
  have head: "\<exists>t doc. map_of objs nm = Some t \<and>
      read_file fs (db, nm @ ''.json'') = Inr doc \<and> columns t = doc_columns doc"
  proof (cases "nm \<in> set names")
    case True
    with objs(2) show ?thesis by blast
  next
    case False
    with objs(3) have "map_of objs nm = Some ?t"
      by (simp add: update_conv')
    with doc show ?thesis by simp
  qed
  have others: "\<forall>x. x \<notin> set (nm # names) \<longrightarrow> map_of objs x = map_of objs0 x"
    using objs(3) by (simp add: update_conv')
  from run head objs(2) others show ?case
    by auto
qed

lemma connect_database_plain_names:
  assumes "map_of fs db = Some dir"
    and "map fst dir = map (\<lambda>nm. nm @ ''.json'') names"
    and "\<forall>nm\<in>set names. \<not> str_contains ''.json'' nm"
  shows "\<exists>objs. connect_database db fs = (Inr \<lparr>db_name = db, tables = names, attrs = objs\<rparr>, fs) \<and>
           (\<forall>nm\<in>set names. \<exists>t doc. map_of objs nm = Some t \<and>
               read_file fs (db, nm @ ''.json'') = Inr doc \<and> Table_describe t = doc_columns doc)"
proof -
  from assms(1,2) have ls: "listdir fs db = Inr (map (\<lambda>nm. nm @ ''.json'') names)"
    by (simp add: listdir_def)
  have files: "\<forall>nm\<in>set names. \<exists>doc. read_file fs (db, nm @ ''.json'') = Inr doc"
  proof
    fix nm assume "nm \<in> set names"
    then have "nm @ ''.json'' \<in> set (map fst dir)"
      by (simp add: assms(2))
    then have "nm @ ''.json'' \<in> fst ` set dir"
      by simp
    then obtain doc where "map_of dir (nm @ ''.json'') = Some doc"
      by (metis map_of_eq_None_iff not_Some_eq)
    with assms(1) show "\<exists>doc. read_file fs (db, nm @ ''.json'') = Inr doc"
      by (simp add: read_file_def)
  qed
  from read_tables_loop_existing [OF files, of "[]"] obtain objs where objs:
    "read_tables_loop db names [] fs = (Inr objs, fs)"
    "\<forall>nm\<in>set names. \<exists>t doc. map_of objs nm = Some t \<and>
        read_file fs (db, nm @ ''.json'') = Inr doc \<and> columns t = doc_columns doc"
    by blast
  from ls objs(1) found_names [OF assms(3)]
  have "connect_database db fs = (Inr \<lparr>db_name = db, tables = names, attrs = objs\<rparr>, fs)"
    by (simp add: connect_database_def DataBase_init_def DataBase_read_tables_def Let_def)
  with objs(2) show ?thesis
    by (auto simp: Table_describe_def)
qed

text \<open>
  C9 at a table named \<^verbatim>\<open>a.json\<close>. Connecting to the empty \<^verbatim>\<open>shop\<close> gives a
  database with no table; \<^verbatim>\<open>create_table('a.json', ...)\<close> on it writes the file
  \<^verbatim>\<open>a.json.json\<close>. Connecting again finds the name \<^verbatim>\<open>a\<close>, since
  \<^verbatim>\<open>replace\<close> removes every \<^verbatim>\<open>.json\<close>; \<^verbatim>\<open>Table(self, 'a')\<close> then finds
  no file \<^verbatim>\<open>a.json\<close>, writes one with no schema and no row, and has the schema
  \<^verbatim>\<open>None\<close>. The table \<^verbatim>\<open>a.json\<close> and its schema are not found again.
\<close>

theorem reconnect_dotted_name_evaluated:
  "connect_database ''shop'' [(''shop'', [])] =
     (Inr \<lparr>db_name = ''shop'', tables = [], attrs = []\<rparr>, [(''shop'', [])]) \<and>
   DataBase_create_table \<lparr>db_name = ''shop'', tables = [], attrs = []\<rparr> ''a.json''
       (Some users_columns) [(''shop'', [])] =
     (Inr (),
      \<lparr>db_name = ''shop'', tables = [''a.json''],
       attrs = [(''a.json'', \<lparr>t_db = ''shop'', t_name = ''a.json'',
                  table_filepath = (''shop'', ''a.json.json''), columns = Some users_columns\<rparr>)]\<rparr>,
      dotted_fs) \<and>
   connect_database ''shop'' dotted_fs =
     (Inr \<lparr>db_name = ''shop'', tables = [''a''],
          attrs = [(''a'', \<lparr>t_db = ''shop'', t_name = ''a'',
                     table_filepath = (''shop'', ''a.json''), columns = None\<rparr>)]\<rparr>,
      [(''shop'',
        [(''a.json.json'', \<lparr>doc_columns = Some users_columns, doc_rows = []\<rparr>),
         (''a.json'', \<lparr>doc_columns = None, doc_rows = []\<rparr>)])])"
  by (simp add: users_columns_def dotted_fs_def connect_database_def DataBase_init_def DataBase_read_tables_def
      DataBase_create_table_def listdir_def Table_init_def path_exists_def write_file_def
      json_dumps_def json_load_def truthy_def Table_read_columns_def read_file_def Let_def
      str_replace.simps)

end
